theory Spec2Isabelle
  imports Complex_Main
begin

section \<open>JavaScript values and operators used by the page\<close>

text \<open>
  The weather page (\<^verbatim>\<open>src/client/src/pages/Weather.tsx\<close>) reads numbers out of
  optional arrays of a parsed JSON response. An element read is a number, \<^verbatim>\<open>null\<close>,
  or \<^verbatim>\<open>undefined\<close> (array absent, index out of range, hole). \<open>NaN\<close> is what
  \<^verbatim>\<open>getHours()\<close> of an invalid date and arithmetic on \<^verbatim>\<open>undefined\<close> give. A finite
  number is \<open>Num r\<close> with \<open>r\<close> its value; the two infinities are what a number too large
  for a double parses to and what a sum of doubles overflows to.
\<close>

datatype jsval = Undefined | Null | NaN | Num real | PosInfinity | NegInfinity

text \<open>
  Truthiness: \<^verbatim>\<open>undefined\<close>, \<^verbatim>\<open>null\<close>, \<^verbatim>\<open>NaN\<close> and \<^verbatim>\<open>0\<close> are falsy, every
  other number is truthy.
\<close>

fun truthy :: "jsval \<Rightarrow> bool" where
  "truthy (Num r) = (r \<noteq> 0)"
| "truthy Undefined = False"
| "truthy Null = False"
| "truthy NaN = False"
| "truthy PosInfinity = True"
| "truthy NegInfinity = True"

text \<open>\<^verbatim>\<open>a || b\<close>: the left operand when it is truthy, the right one otherwise.\<close>

definition jsor :: "jsval \<Rightarrow> jsval \<Rightarrow> jsval" where
  "jsor a b = (if truthy a then a else b)"

text \<open>\<^verbatim>\<open>a ?? b\<close>: the right operand only when the left is \<^verbatim>\<open>null\<close> or \<^verbatim>\<open>undefined\<close>.\<close>

definition nullish :: "jsval \<Rightarrow> jsval \<Rightarrow> jsval" where
  "nullish a b = (if a = Undefined \<or> a = Null then b else a)"

text \<open>
  \<^verbatim>\<open>ToNumber\<close>: a finite value or an infinity, \<open>None\<close> standing for \<open>NaN\<close>; and the
  order of these values.
\<close>

datatype ext = MInf | Fin real | PInf

fun toNumber :: "jsval \<Rightarrow> ext option" where
  "toNumber (Num r) = Some (Fin r)"
| "toNumber Null = Some (Fin 0)"
| "toNumber Undefined = None"
| "toNumber NaN = None"
| "toNumber PosInfinity = Some PInf"
| "toNumber NegInfinity = Some MInf"

fun extLess :: "ext \<Rightarrow> ext \<Rightarrow> bool" where
  "extLess (Fin x) (Fin y) = (x < y)"
| "extLess MInf (Fin y) = True"
| "extLess MInf PInf = True"
| "extLess (Fin x) PInf = True"
| "extLess MInf MInf = False"
| "extLess (Fin x) MInf = False"
| "extLess PInf y = False"

text \<open>
  \<^verbatim>\<open>a + b\<close> on these values (no strings among them) and \<^verbatim>\<open>a / 2\<close>, in the double
  arithmetic of the runtime. The sum of two finite doubles and the half of one are the
  runtime's, rounded as IEEE 754 rounds and possibly an infinity: they are the
  parameters \<open>fadd\<close> and \<open>fhalf\<close>. What the standard fixes for \<open>NaN\<close> and the
  infinities is written out.
\<close>

definition jsadd :: "(real \<Rightarrow> real \<Rightarrow> jsval) \<Rightarrow> jsval \<Rightarrow> jsval \<Rightarrow> jsval" where
  "jsadd fadd a b =
     (case toNumber a of
        None \<Rightarrow> NaN
      | Some x \<Rightarrow>
          (case toNumber b of
             None \<Rightarrow> NaN
           | Some y \<Rightarrow>
               (case x of
                  Fin u \<Rightarrow>
                    (case y of Fin v \<Rightarrow> fadd u v | PInf \<Rightarrow> PosInfinity | MInf \<Rightarrow> NegInfinity)
                | PInf \<Rightarrow> (case y of MInf \<Rightarrow> NaN | _ \<Rightarrow> PosInfinity)
                | MInf \<Rightarrow> (case y of PInf \<Rightarrow> NaN | _ \<Rightarrow> NegInfinity))))"

definition jshalf :: "(real \<Rightarrow> jsval) \<Rightarrow> jsval \<Rightarrow> jsval" where
  "jshalf fhalf a =
     (case toNumber a of
        None \<Rightarrow> NaN
      | Some (Fin u) \<Rightarrow> fhalf u
      | Some PInf \<Rightarrow> PosInfinity
      | Some MInf \<Rightarrow> NegInfinity)"

text \<open>\<^verbatim>\<open>a > b\<close> and \<^verbatim>\<open>a <= b\<close>: false as soon as one side is \<open>NaN\<close>.\<close>

definition jsgt :: "jsval \<Rightarrow> jsval \<Rightarrow> bool" where
  "jsgt a b =
     (case toNumber a of None \<Rightarrow> False
      | Some x \<Rightarrow> (case toNumber b of None \<Rightarrow> False | Some y \<Rightarrow> extLess y x))"

definition jsle :: "jsval \<Rightarrow> jsval \<Rightarrow> bool" where
  "jsle a b =
     (case toNumber a of None \<Rightarrow> False
      | Some x \<Rightarrow> (case toNumber b of None \<Rightarrow> False | Some y \<Rightarrow> \<not> extLess y x))"

subsection \<open>Member access\<close>

datatype error = TypeError

text \<open>
  \<^verbatim>\<open>x.f\<close> raises a TypeError when \<open>x\<close> is \<^verbatim>\<open>null\<close> or \<^verbatim>\<open>undefined\<close>;
  \<^verbatim>\<open>x?.f\<close> gives \<^verbatim>\<open>undefined\<close> there; \<^verbatim>\<open>a?.[i]\<close> gives \<^verbatim>\<open>undefined\<close>
  for an absent array and for an index past its end.
\<close>

definition dot :: "'a option \<Rightarrow> ('a \<Rightarrow> 'b) \<Rightarrow> error + 'b" where
  "dot x f = (case x of None \<Rightarrow> Inl TypeError | Some v \<Rightarrow> Inr (f v))"

definition qdot :: "'a option \<Rightarrow> ('a \<Rightarrow> 'b option) \<Rightarrow> 'b option" where
  "qdot x f = (case x of None \<Rightarrow> None | Some v \<Rightarrow> f v)"

definition qidx :: "jsval list option \<Rightarrow> nat \<Rightarrow> jsval" where
  "qidx a i =
     (case a of None \<Rightarrow> Undefined
      | Some xs \<Rightarrow> if i < length xs then xs ! i else Undefined)"

definition bindE :: "error + 'a \<Rightarrow> ('a \<Rightarrow> error + 'b) \<Rightarrow> error + 'b" where
  "bindE m f = (case m of Inl e \<Rightarrow> Inl e | Inr v \<Rightarrow> f v)"

subsection \<open>Dates\<close>

text \<open>
  \<^verbatim>\<open>new Date(s)\<close> is the runtime's: the page only reads the local hour of day
  (\<^verbatim>\<open>getHours()\<close>) and the local day of the month (\<^verbatim>\<open>getDate()\<close>) of the result.
  A date is its local calendar fields, or invalid.
\<close>

datatype jsdate = InvalidDate | Date (year: int) (month: nat) (dayOfMonth: nat) (hourOfDay: nat)

fun getHours :: "jsdate \<Rightarrow> jsval" where
  "getHours InvalidDate = NaN"
| "getHours (Date y m d h) = Num (real h)"

fun getDate :: "jsdate \<Rightarrow> jsval" where
  "getDate InvalidDate = NaN"
| "getDate (Date y m d h) = Num (real d)"

text \<open>Number-to-string for the hour label \<^verbatim>\<open>time.getHours() + 'h'\<close>.\<close>

definition digitChar :: "nat \<Rightarrow> char" where
  "digitChar d = ''0123456789'' ! d"

fun showNat :: "nat \<Rightarrow> string" where
  "showNat n =
     (if n < 10 then [digitChar n]
      else showNat (n div 10) @ [digitChar (n mod 10)])"

fun hoursText :: "jsdate \<Rightarrow> string" where
  "hoursText InvalidDate = ''NaN''"
| "hoursText (Date y m d h) = showNat h"

section \<open>The provider response\<close>

text \<open>
  The type \<^verbatim>\<open>WeatherData\<close> is declared outside the files at hand; the record below
  lists the fields the page reads. The \<^verbatim>\<open>hourly\<close> and \<^verbatim>\<open>daily\<close> sections are
  objects of optional arrays, index-aligned with their \<^verbatim>\<open>time\<close> array: \<^verbatim>\<open>time\<close>,
  \<^verbatim>\<open>sunrise\<close> and \<^verbatim>\<open>sunset\<close> hold strings, every other array holds numbers, and
  an entry may be null. A section or an array that is absent is \<open>None\<close>.
\<close>

record series =
  time :: "string list option"
  temperature_2m :: "jsval list option"
  temperature :: "jsval list option"
  apparent_temperature :: "jsval list option"
  apparentTemperature :: "jsval list option"
  precipitation_probability :: "jsval list option"
  precipitation :: "jsval list option"
  precipitation_sum :: "jsval list option"
  relative_humidity_2m :: "jsval list option"
  humidity :: "jsval list option"
  wind_speed_10m :: "jsval list option"
  wind_speed :: "jsval list option"
  weather_code :: "jsval list option"
  temperature_2m_min :: "jsval list option"
  temperature_2m_mean :: "jsval list option"
  temperature_2m_max :: "jsval list option"
  precipitation_probability_max :: "jsval list option"
  sunrise :: "string option list option"
  sunset :: "string option list option"

record weatherData =
  hourly :: "series option"
  daily :: "series option"

text \<open>
  What the page takes from the runtime: \<^verbatim>\<open>new Date(s)\<close>, the short weekday name
  \<^verbatim>\<open>toLocaleDateString('en-US', { weekday: 'short' })\<close>, the short time of day
  \<^verbatim>\<open>toLocaleTimeString([], {hour: '2-digit', minute:'2-digit'})\<close>, and the sum and
  the half of finite doubles.
\<close>

record runtime =
  newDate :: "string \<Rightarrow> jsdate"
  weekdayShort :: "jsdate \<Rightarrow> string"
  timeShort :: "jsdate \<Rightarrow> string"
  fadd :: "real \<Rightarrow> real \<Rightarrow> jsval"
  fhalf :: "real \<Rightarrow> jsval"

section \<open>Hourly charts: the window after the current hour\<close>

text \<open>
  Lines 165, 208, 248, 293:
  \<^verbatim>\<open>time.getHours() > currentHour || time.getDate() > new Date().getDate()\<close>.
  \<open>now\<close> is the clock reading \<^verbatim>\<open>new Date()\<close>; one reading serves the whole loop.
\<close>

definition afterNow :: "jsdate \<Rightarrow> jsdate \<Rightarrow> bool" where
  "afterNow t now = (jsgt (getHours t) (getHours now) \<or> jsgt (getDate t) (getDate now))"

text \<open>
  The loop of lines 161-178 (and its three copies at 204, 244, 289, which differ in the
  sample they push and in the bound, 24 or 9):
  \<^verbatim>\<open>for (let i = 0; i < time.length; i++) { if (...) { out.push(...); if (out.length >= limit) break; } }\<close>.
  \<open>mk i d\<close> is the pushed sample for index \<open>i\<close> whose timestamp parsed to \<open>d\<close>.
\<close>

function hourlyLoop ::
  "nat \<Rightarrow> (nat \<Rightarrow> jsdate \<Rightarrow> 'a) \<Rightarrow> (string \<Rightarrow> jsdate) \<Rightarrow> jsdate \<Rightarrow> string list \<Rightarrow> nat \<Rightarrow> 'a list \<Rightarrow> 'a list"
where
  "hourlyLoop limit mk nd now ts i acc =
     (if i < length ts then
        (if afterNow (nd (ts ! i)) now then
           (if limit \<le> length (acc @ [mk i (nd (ts ! i))]) then acc @ [mk i (nd (ts ! i))]
            else hourlyLoop limit mk nd now ts (i + 1) (acc @ [mk i (nd (ts ! i))]))
         else hourlyLoop limit mk nd now ts (i + 1) acc)
      else acc)"
  by pat_completeness auto
termination
  by (relation "measure (\<lambda>(limit, mk, nd, now, ts, i, acc). length ts - i)") auto

declare hourlyLoop.simps [simp del]

text \<open>
  The guard \<^verbatim>\<open>if (currentData?.hourly?.time)\<close> and the plain accesses behind it:
  \<^verbatim>\<open>currentData.hourly\<close> needs \<open>currentData\<close> to be an object, \<^verbatim>\<open>.time\<close> and the
  quantity arrays need \<^verbatim>\<open>hourly\<close> to be one, \<^verbatim>\<open>.length\<close> and \<^verbatim>\<open>[i]\<close> need
  \<^verbatim>\<open>time\<close> to be one; each is a \<open>dot\<close> that can raise. When the guard fails the
  result is the empty array the loop would have started from.
\<close>

definition hourlyWindow ::
  "nat \<Rightarrow> (series \<Rightarrow> nat \<Rightarrow> jsdate \<Rightarrow> 'a) \<Rightarrow> runtime \<Rightarrow> jsdate \<Rightarrow> weatherData option \<Rightarrow> error + 'a list"
where
  "hourlyWindow limit mk rt now currentData =
     (case qdot (qdot currentData hourly) time of
        None \<Rightarrow> Inr []
      | Some _ \<Rightarrow>
          bindE (dot currentData hourly) (\<lambda>ho.
          bindE (dot ho (\<lambda>h. h)) (\<lambda>h.
          bindE (dot (time h) (\<lambda>ts. ts)) (\<lambda>ts.
            Inr (hourlyLoop limit (mk h) (newDate rt) now ts 0 [])))))"

text \<open>
  The loop in closed form, for the proofs: the indices whose timestamp passes the page's
  test \<open>afterNow\<close>, in order, cut at \<open>limit\<close> of them. That the loop computes the
  samples at these indices is lemma \<open>hourlyWindow_present\<close> below.
\<close>

definition windowIndices :: "nat \<Rightarrow> runtime \<Rightarrow> jsdate \<Rightarrow> string list \<Rightarrow> nat list" where
  "windowIndices limit rt now ts =
     take limit (filter (\<lambda>i. afterNow (newDate rt (ts ! i)) now) [0..<length ts])"

text \<open>
  Lines 154-182: the temperature and feels-like chart, at most 24 points. The fields of
  an output record are the source's (\<^verbatim>\<open>name\<close>, \<^verbatim>\<open>hour\<close>, \<^verbatim>\<open>temperature\<close>,
  \<^verbatim>\<open>feels_like\<close>) behind a prefix per record, here and below.
\<close>

record hourlyTemp =
  ht_name :: string
  ht_hour :: jsval
  ht_temperature :: jsval
  ht_feels_like :: jsval

definition tempPoint :: "series \<Rightarrow> nat \<Rightarrow> jsdate \<Rightarrow> hourlyTemp" where
  "tempPoint h i d =
     \<lparr> ht_name = hoursText d @ ''h'',
       ht_hour = getHours d,
       ht_temperature =
         jsor (jsor (qidx (temperature_2m h) i) (qidx (temperature h) i)) (Num 0),
       ht_feels_like =
         jsor (jsor (qidx (apparent_temperature h) i) (qidx (apparentTemperature h) i)) Null \<rparr>"

definition hourlyTemperature :: "runtime \<Rightarrow> jsdate \<Rightarrow> weatherData option \<Rightarrow> error + hourlyTemp list" where
  "hourlyTemperature = hourlyWindow 24 tempPoint"

text \<open>Lines 197-223: the precipitation chart, at most 24 points.\<close>

record hourlyPrecip =
  hp_name :: string
  hp_probability :: jsval
  hp_amount :: jsval

definition precipPoint :: "series \<Rightarrow> nat \<Rightarrow> jsdate \<Rightarrow> hourlyPrecip" where
  "precipPoint h i d =
     \<lparr> hp_name = hoursText d @ ''h'',
       hp_probability = jsor (qidx (precipitation_probability h) i) (Num 0),
       hp_amount =
         jsor (jsor (qidx (precipitation h) i) (qidx (precipitation_sum h) i)) (Num 0) \<rparr>"

definition hourlyPrecipitation :: "runtime \<Rightarrow> jsdate \<Rightarrow> weatherData option \<Rightarrow> error + hourlyPrecip list" where
  "hourlyPrecipitation = hourlyWindow 24 precipPoint"

text \<open>Lines 237-275: the humidity and wind boxes, at most 9.\<close>

record hourlyDetail =
  hd_hours :: string
  hd_humidity :: jsval
  hd_windSpeed :: jsval

definition detailBox :: "series \<Rightarrow> nat \<Rightarrow> jsdate \<Rightarrow> hourlyDetail" where
  "detailBox h i d =
     \<lparr> hd_hours = hoursText d,
       hd_humidity =
         jsor (jsor (qidx (relative_humidity_2m h) i) (qidx (humidity h) i)) (Num 0),
       hd_windSpeed =
         jsor (jsor (qidx (wind_speed_10m h) i) (qidx (wind_speed h) i)) (Num 0) \<rparr>"

definition hourlyDetails :: "runtime \<Rightarrow> jsdate \<Rightarrow> weatherData option \<Rightarrow> error + hourlyDetail list" where
  "hourlyDetails = hourlyWindow 9 detailBox"

text \<open>
  Lines 282-333: the weather condition boxes, at most 9. The variables start as
  \<^verbatim>\<open>'help_outline'\<close> and \<^verbatim>\<open>'Unknown'\<close>; each of the two \<^verbatim>\<open>if\<close> chains ends in an
  \<^verbatim>\<open>else\<close> and so assigns on every path.
\<close>

definition hourlyIcon :: "jsval \<Rightarrow> string" where
  "hourlyIcon weatherCode =
     (if jsle weatherCode (Num 3) then ''wb_sunny''
      else if jsle weatherCode (Num 49) then ''cloud''
      else if jsle weatherCode (Num 59) then ''grain''
      else if jsle weatherCode (Num 69) then ''ac_unit''
      else if jsle weatherCode (Num 79) then ''ac_unit''
      else if jsle weatherCode (Num 82) then ''rainy''
      else if jsle weatherCode (Num 86) then ''ac_unit''
      else ''thunderstorm'')"

definition hourlyDescription :: "jsval \<Rightarrow> string" where
  "hourlyDescription weatherCode =
     (if jsle weatherCode (Num 3) then ''Clear''
      else if jsle weatherCode (Num 49) then ''Cloudy''
      else if jsle weatherCode (Num 59) then ''Drizzle''
      else if jsle weatherCode (Num 69) then ''Rain''
      else if jsle weatherCode (Num 79) then ''Snow''
      else if jsle weatherCode (Num 82) then ''Showers''
      else if jsle weatherCode (Num 86) then ''Snow''
      else ''Thunder'')"

record hourlyCondition =
  hc_hours :: string
  hc_weatherIcon :: string
  hc_description :: string

definition conditionBox :: "series \<Rightarrow> nat \<Rightarrow> jsdate \<Rightarrow> hourlyCondition" where
  "conditionBox h i d =
     \<lparr> hc_hours = hoursText d,
       hc_weatherIcon = hourlyIcon (jsor (qidx (weather_code h) i) (Num 0)),
       hc_description = hourlyDescription (jsor (qidx (weather_code h) i) (Num 0)) \<rparr>"

definition hourlyConditions :: "runtime \<Rightarrow> jsdate \<Rightarrow> weatherData option \<Rightarrow> error + hourlyCondition list" where
  "hourlyConditions = hourlyWindow 9 conditionBox"

section \<open>Daily forecast\<close>

text \<open>
  The forecast tab is rendered under the guard \<^verbatim>\<open>forecastData ? ... : ...\<close> (line 352),
  so \<open>forecastData\<close> is an object here; every access below it is an optional chain.
  \<^verbatim>\<open>(forecastData.daily?.time || []).map((date, i) => ...)\<close>.
\<close>

definition dailyTimes :: "weatherData \<Rightarrow> string list" where
  "dailyTimes forecastData =
     (case qdot (daily forecastData) time of None \<Rightarrow> [] | Some ts \<Rightarrow> ts)"

definition dq :: "weatherData \<Rightarrow> (series \<Rightarrow> jsval list option) \<Rightarrow> nat \<Rightarrow> jsval" where
  "dq forecastData f i = qidx (qdot (daily forecastData) f) i"

text \<open>Lines 361-372: minimum, maximum and average temperature per day.\<close>

record dailyTemp =
  dt_name :: string
  dt_min :: jsval
  dt_max :: jsval
  dt_avg :: jsval

definition dailyTempPoint :: "runtime \<Rightarrow> weatherData \<Rightarrow> nat \<times> string \<Rightarrow> dailyTemp" where
  "dailyTempPoint rt forecastData p =
     (case p of (i, date) \<Rightarrow>
        \<lparr> dt_name = weekdayShort rt (newDate rt date),
          dt_min = jsor (dq forecastData temperature_2m_min i) (Num 0),
          dt_max = jsor (dq forecastData temperature_2m_max i) (Num 0),
          dt_avg =
            jshalf (fhalf rt)
              (jsadd (fadd rt) (jsor (dq forecastData temperature_2m_min i) (Num 0))
                               (jsor (dq forecastData temperature_2m_max i) (Num 0))) \<rparr>)"

definition dailyTemperature :: "runtime \<Rightarrow> weatherData \<Rightarrow> dailyTemp list" where
  "dailyTemperature rt forecastData =
     map (dailyTempPoint rt forecastData) (enumerate 0 (dailyTimes forecastData))"

text \<open>
  Lines 383-423: the values the daily detail cards compute (the markup and the second
  date label are display only). The range table differs from the hourly one in the icon
  of the band up to 69.
\<close>

definition dailyIcon :: "jsval \<Rightarrow> string" where
  "dailyIcon weatherCode =
     (if jsle weatherCode (Num 3) then ''wb_sunny''
      else if jsle weatherCode (Num 49) then ''cloud''
      else if jsle weatherCode (Num 59) then ''grain''
      else if jsle weatherCode (Num 69) then ''rainy''
      else if jsle weatherCode (Num 79) then ''ac_unit''
      else if jsle weatherCode (Num 82) then ''rainy''
      else if jsle weatherCode (Num 86) then ''ac_unit''
      else ''thunderstorm'')"

definition dailyDescription :: "jsval \<Rightarrow> string" where
  "dailyDescription weatherCode =
     (if jsle weatherCode (Num 3) then ''Clear''
      else if jsle weatherCode (Num 49) then ''Cloudy''
      else if jsle weatherCode (Num 59) then ''Drizzle''
      else if jsle weatherCode (Num 69) then ''Rain''
      else if jsle weatherCode (Num 79) then ''Snow''
      else if jsle weatherCode (Num 82) then ''Showers''
      else if jsle weatherCode (Num 86) then ''Snow''
      else ''Thunder'')"

text \<open>The placeholder is an en dash (U+2013), here as its three UTF-8 bytes.\<close>

definition dash :: string where
  "dash = [CHR 0xE2, CHR 0x80, CHR 0x93]"

definition sunText :: "runtime \<Rightarrow> string option list option \<Rightarrow> nat \<Rightarrow> string" where
  "sunText rt a i =
     (case a of None \<Rightarrow> dash
      | Some xs \<Rightarrow>
          if i < length xs then
            (case xs ! i of None \<Rightarrow> dash
             | Some s \<Rightarrow> if s \<noteq> [] then timeShort rt (newDate rt s) else dash)
          else dash)"

record dailyDetail =
  dd_day :: string
  dd_weatherCode :: jsval
  dd_windSpeed :: jsval
  dd_humidity :: jsval
  dd_precipProb :: jsval
  dd_precipSum :: jsval
  dd_sunrise :: string
  dd_sunset :: string
  dd_weatherIcon :: string
  dd_description :: string

definition dailyDetailCard :: "runtime \<Rightarrow> weatherData \<Rightarrow> nat \<times> string \<Rightarrow> dailyDetail" where
  "dailyDetailCard rt forecastData p =
     (case p of (i, date) \<Rightarrow>
        \<lparr> dd_day = weekdayShort rt (newDate rt date),
          dd_weatherCode = jsor (dq forecastData weather_code i) (Num 0),
          dd_windSpeed =
            jsor (jsor (dq forecastData wind_speed_10m i) (dq forecastData wind_speed i)) (Num 0),
          dd_humidity =
            jsor (jsor (dq forecastData relative_humidity_2m i) (dq forecastData humidity i)) (Num 0),
          dd_precipProb = jsor (dq forecastData precipitation_probability_max i) (Num 0),
          dd_precipSum = jsor (dq forecastData precipitation_sum i) (Num 0),
          dd_sunrise = sunText rt (qdot (daily forecastData) sunrise) i,
          dd_sunset = sunText rt (qdot (daily forecastData) sunset) i,
          dd_weatherIcon = dailyIcon (jsor (dq forecastData weather_code i) (Num 0)),
          dd_description = dailyDescription (jsor (dq forecastData weather_code i) (Num 0)) \<rparr>)"

definition dailyDetails :: "runtime \<Rightarrow> weatherData \<Rightarrow> dailyDetail list" where
  "dailyDetails rt forecastData =
     map (dailyDetailCard rt forecastData) (enumerate 0 (dailyTimes forecastData))"

text \<open>
  Lines 541-569: \<^verbatim>\<open>getWeatherIcon\<close>, the exact-match table of the daily condition
  tiles, \<^verbatim>\<open>iconMap[code] || 'help_outline'\<close>; line 532 reads the code with
  \<^verbatim>\<open>?? 0\<close>. A number used as a property key selects the entry of the same value.
\<close>

definition iconMap :: "(real \<times> string) list" where
  "iconMap =
     [(0, ''wb_sunny''), (1, ''wb_sunny''), (2, ''cloud''), (3, ''cloud''),
      (45, ''cloud''), (48, ''cloud''),
      (51, ''grain''), (53, ''grain''), (55, ''grain''),
      (61, ''rainy''), (63, ''rainy''), (65, ''rainy''),
      (71, ''ac_unit''), (73, ''ac_unit''), (75, ''ac_unit''), (77, ''ac_unit''),
      (80, ''rainy''), (81, ''rainy''), (82, ''rainy''),
      (85, ''ac_unit''), (86, ''ac_unit''),
      (95, ''thunderstorm''), (96, ''thunderstorm''), (99, ''thunderstorm'')]"

fun getWeatherIcon :: "jsval \<Rightarrow> string" where
  "getWeatherIcon (Num code) =
     (case map_of iconMap code of
        None \<Rightarrow> ''help_outline''
      | Some s \<Rightarrow> if s \<noteq> [] then s else ''help_outline'')"
| "getWeatherIcon Undefined = ''help_outline''"
| "getWeatherIcon Null = ''help_outline''"
| "getWeatherIcon NaN = ''help_outline''"
| "getWeatherIcon PosInfinity = ''help_outline''"
| "getWeatherIcon NegInfinity = ''help_outline''"

definition dailyTileIcon :: "weatherData \<Rightarrow> nat \<Rightarrow> string" where
  "dailyTileIcon forecastData i =
     getWeatherIcon (nullish (dq forecastData weather_code i) (Num 0))"

text \<open>
  Lines 533-537, the wind speed of the same tiles: the number that is handed to
  \<^verbatim>\<open>toFixed(1)\<close> for display.
\<close>

definition dailyTileWind :: "weatherData \<Rightarrow> nat \<Rightarrow> jsval" where
  "dailyTileWind forecastData i =
     jsor (jsor (dq forecastData wind_speed_10m i) (dq forecastData wind_speed i)) (Num 0)"

text \<open>Lines 500-508: the daily precipitation chart.\<close>

record dailyPrecip =
  dp_name :: string
  dp_amount :: jsval
  dp_probability :: jsval

definition dailyPrecipPoint :: "runtime \<Rightarrow> weatherData \<Rightarrow> nat \<times> string \<Rightarrow> dailyPrecip" where
  "dailyPrecipPoint rt forecastData p =
     (case p of (i, date) \<Rightarrow>
        \<lparr> dp_name = weekdayShort rt (newDate rt date),
          dp_amount = jsor (dq forecastData precipitation_sum i) (Num 0),
          dp_probability = jsor (dq forecastData precipitation_probability_max i) (Num 0) \<rparr>)"

definition dailyPrecipitation :: "runtime \<Rightarrow> weatherData \<Rightarrow> dailyPrecip list" where
  "dailyPrecipitation rt forecastData =
     map (dailyPrecipPoint rt forecastData) (enumerate 0 (dailyTimes forecastData))"

section \<open>Historical chart\<close>

text \<open>
  Lines 79-95, \<^verbatim>\<open>formatHistoricalChartData\<close>: the guard
  \<^verbatim>\<open>if (!data || !data.daily) return []\<close>, then
  \<^verbatim>\<open>(data.daily.time || []).map((date, index) => ...)\<close>.
\<close>

record historicalPoint =
  hi_name :: string
  hi_temperature :: jsval
  hi_precipitation :: jsval

definition historicalRow :: "runtime \<Rightarrow> series option \<Rightarrow> nat \<times> string \<Rightarrow> historicalPoint" where
  "historicalRow rt dl p =
     (case p of (index, date) \<Rightarrow>
        \<lparr> hi_name = weekdayShort rt (newDate rt date),
          hi_temperature =
            jsor (jsor (jsor (qidx (qdot dl temperature_2m_min) index)
                             (qidx (qdot dl temperature_2m_mean) index))
                       (qidx (qdot dl temperature_2m_max) index))
                 (Num 0),
          hi_precipitation = jsor (qidx (qdot dl precipitation_sum) index) (Num 0) \<rparr>)"

definition formatHistoricalChartData :: "runtime \<Rightarrow> weatherData option \<Rightarrow> error + historicalPoint list" where
  "formatHistoricalChartData rt data =
     (if data = None then Inr []
      else bindE (dot data daily) (\<lambda>guard.
        if guard = None then Inr []
        else bindE (dot data daily) (\<lambda>dl.
             bindE (dot dl time) (\<lambda>ts.
               Inr (map (historicalRow rt dl)
                        (enumerate 0 (case ts of None \<Rightarrow> [] | Some xs \<Rightarrow> xs)))))))"

section \<open>Notions of the specification\<close>

text \<open>
  A datum is populated when the array exists and the value at the index is present and
  not null (the specification's Field Resolver, section 4.1).
\<close>

definition populated :: "jsval \<Rightarrow> bool" where
  "populated v = (v \<noteq> Undefined \<and> v \<noteq> Null)"

text \<open>
  The same for an entry of a string array (\<^verbatim>\<open>sunrise\<close>, \<^verbatim>\<open>sunset\<close>): the entry
  read by \<^verbatim>\<open>a?.[i]\<close>, \<open>None\<close> when the array is absent, the index past its end or
  the entry null.
\<close>

definition textAt :: "string option list option \<Rightarrow> nat \<Rightarrow> string option" where
  "textAt a i =
     (case a of None \<Rightarrow> None
      | Some xs \<Rightarrow> if i < length xs then xs ! i else None)"

text \<open>
  The double arithmetic of line 370 is exact at two operands when the runtime's sum is
  the real sum and the runtime's half of it the real half, as it is for 10 and 20.
\<close>

definition exactAt :: "runtime \<Rightarrow> real \<Rightarrow> real \<Rightarrow> bool" where
  "exactAt rt x y = (fadd rt x y = Num (x + y) \<and> fhalf rt (x + y) = Num ((x + y) / 2))"

text \<open>
  The specification's inclusion rule (section 4.3, step 2): the hour of day is strictly
  greater than the reference's, or the calendar date (year, month, day) is strictly later
  than the reference date.
\<close>

definition laterDate :: "jsdate \<Rightarrow> jsdate \<Rightarrow> bool" where
  "laterDate t now =
     (case t of InvalidDate \<Rightarrow> False
      | Date y m d h \<Rightarrow>
          (case now of InvalidDate \<Rightarrow> False
           | Date y0 m0 d0 h0 \<Rightarrow>
               y0 < y \<or> (y = y0 \<and> (m0 < m \<or> (m = m0 \<and> d0 < d)))))"

definition afterNowSpec :: "jsdate \<Rightarrow> jsdate \<Rightarrow> bool" where
  "afterNowSpec t now = (jsgt (getHours t) (getHours now) \<or> laterDate t now)"

text \<open>The provider codes the specification lists, and the labels the range tables assign.\<close>

definition knownCodes :: "real list" where
  "knownCodes =
     [0, 1, 2, 3, 45, 48, 51, 53, 55, 61, 63, 65, 71, 73, 75, 77, 80, 81, 82, 85, 86, 95, 96, 99]"

definition categories :: "string list" where
  "categories = [''Clear'', ''Cloudy'', ''Drizzle'', ''Rain'', ''Snow'', ''Showers'', ''Thunder'']"

section \<open>Inputs for worked examples\<close>

text \<open>
  An instance of the runtime for the examples: timestamps of the form
  \<^verbatim>\<open>YYYY-MM-DDTHH:MM\<close> are read as local time, which is how ECMAScript reads a
  date-time without an offset; any other string counts as invalid here. The two text
  renderings are stand-ins, no example depends on them. The sum and the half are the
  exact ones, which is what double arithmetic gives on the small integers of the
  examples; no example uses other operands.
\<close>

fun digitsVal :: "string \<Rightarrow> nat \<Rightarrow> nat option" where
  "digitsVal [] acc = Some acc"
| "digitsVal (c # cs) acc =
     (if 48 \<le> (of_char c :: nat) \<and> (of_char c :: nat) \<le> 57
      then digitsVal cs (10 * acc + ((of_char c :: nat) - 48)) else None)"

definition isoLocal :: "string \<Rightarrow> jsdate" where
  "isoLocal s =
     (if length s = 16 \<and> s ! 4 = CHR ''-'' \<and> s ! 7 = CHR ''-'' \<and> s ! 10 = CHR ''T'' \<and> s ! 13 = CHR '':''
      then
        (case digitsVal (take 4 s) 0 of None \<Rightarrow> InvalidDate | Some y \<Rightarrow>
        (case digitsVal (take 2 (drop 5 s)) 0 of None \<Rightarrow> InvalidDate | Some m \<Rightarrow>
        (case digitsVal (take 2 (drop 8 s)) 0 of None \<Rightarrow> InvalidDate | Some d \<Rightarrow>
        (case digitsVal (take 2 (drop 11 s)) 0 of None \<Rightarrow> InvalidDate | Some h \<Rightarrow>
        (case digitsVal (drop 14 s) 0 of None \<Rightarrow> InvalidDate | Some mi \<Rightarrow>
           if 1 \<le> m \<and> m \<le> 12 \<and> 1 \<le> d \<and> d \<le> 31 \<and> h < 24 \<and> mi < 60
           then Date (int y) m d h else InvalidDate)))))
      else InvalidDate)"

definition sampleRuntime :: runtime where
  "sampleRuntime =
     \<lparr> newDate = isoLocal, weekdayShort = (\<lambda>d. ''day''), timeShort = (\<lambda>d. ''time''),
       fadd = (\<lambda>x y. Num (x + y)), fhalf = (\<lambda>x. Num (x / 2)) \<rparr>"

definition emptySeries :: series where
  "emptySeries =
     \<lparr> time = None, temperature_2m = None, temperature = None, apparent_temperature = None,
       apparentTemperature = None, precipitation_probability = None, precipitation = None,
       precipitation_sum = None, relative_humidity_2m = None, humidity = None,
       wind_speed_10m = None, wind_speed = None, weather_code = None,
       temperature_2m_min = None, temperature_2m_mean = None, temperature_2m_max = None,
       precipitation_probability_max = None, sunrise = None, sunset = None \<rparr>"

definition hourlyOnly :: "series \<Rightarrow> weatherData option" where
  "hourlyOnly h = Some \<lparr> hourly = Some h, daily = None \<rparr>"

definition dailyOnly :: "series \<Rightarrow> weatherData" where
  "dailyOnly d = \<lparr> hourly = None, daily = Some d \<rparr>"

text \<open>The scenario of the specification's section 8: three hourly samples of one morning.\<close>

definition exampleHours :: series where
  "exampleHours =
     emptySeries \<lparr> time := Some [''2024-01-01T05:00'', ''2024-01-01T06:00'', ''2024-01-01T07:00''],
                   temperature_2m := Some [Num 11, Num 12, Num 13] \<rparr>"

text \<open>
  Three days: both bounds present, only the maximum present (the minimum is null), and
  a day past the end of both arrays.
\<close>

definition exampleDays :: series where
  "exampleDays =
     emptySeries \<lparr> time := Some [''2024-01-01'', ''2024-01-02'', ''2024-01-03''],
                   temperature_2m_min := Some [Num 10, Null],
                   temperature_2m_max := Some [Num 20, Num 20] \<rparr>"

text \<open>An hour whose primary temperature and feels-like values are exactly zero.\<close>

definition twoAliasHour :: series where
  "twoAliasHour =
     emptySeries \<lparr> time := Some [''2024-01-01T06:00''],
                   temperature_2m := Some [Num 0],
                   temperature := Some [Num 5],
                   apparent_temperature := Some [Num 0] \<rparr>"

text \<open>An hour that feels like 0 degrees, and the same hour without any feels-like array.\<close>

definition freezingHour :: series where
  "freezingHour =
     emptySeries \<lparr> time := Some [''2024-01-01T06:00''],
                   temperature_2m := Some [Num 2],
                   apparent_temperature := Some [Num 0] \<rparr>"

definition noFeelsLikeHour :: series where
  "noFeelsLikeHour =
     emptySeries \<lparr> time := Some [''2024-01-01T06:00''],
                   temperature_2m := Some [Num 2] \<rparr>"

text \<open>An early hour of the first of February, to be read on the 31st of January.\<close>

definition rolloverHours :: series where
  "rolloverHours =
     emptySeries \<lparr> time := Some [''2024-02-01T05:00''],
                   temperature_2m := Some [Num 14] \<rparr>"

text \<open>An early hour of the 31st of January, to be read on the first of February.\<close>

definition staleHours :: series where
  "staleHours =
     emptySeries \<lparr> time := Some [''2024-01-31T05:00''],
                   temperature_2m := Some [Num 14] \<rparr>"

text \<open>
  A week of days on which only the minimum temperature is given, once as null and once
  past the end of the array; sunrise is given likewise, sunset not at all.
\<close>

definition sparseDays :: series where
  "sparseDays =
     emptySeries \<lparr> time := Some [''2024-01-01'', ''2024-01-02''],
                   temperature_2m_min := Some [Null],
                   sunrise := Some [None] \<rparr>"

text \<open>A day with a minimum of exactly zero, and two days of which one has only a mean.\<close>

definition frostDay :: series where
  "frostDay =
     emptySeries \<lparr> time := Some [''2024-01-01''],
                   temperature_2m_min := Some [Num 0],
                   temperature_2m_mean := Some [Num 4],
                   temperature_2m_max := Some [Num 9] \<rparr>"

definition meanOnlyDays :: series where
  "meanOnlyDays =
     emptySeries \<lparr> time := Some [''2024-01-01'', ''2024-01-02''],
                   temperature_2m_mean := Some [Num 18] \<rparr>"

section \<open>The loop as a filter with a bound\<close>

lemma hourlyLoop_eq:
  "length acc < limit \<Longrightarrow>
   hourlyLoop limit mk nd now ts i acc =
     acc @ map (\<lambda>j. mk j (nd (ts ! j)))
             (take (limit - length acc) (filter (\<lambda>j. afterNow (nd (ts ! j)) now) [i..<length ts]))"
proof (induction limit mk nd now ts i acc rule: hourlyLoop.induct)
  case (1 limit mk nd now ts i acc)
  show ?case
  proof (cases "i < length ts")
    case False
    then show ?thesis by (simp add: hourlyLoop.simps [of limit mk nd now ts i acc])
  next
    case True
    then have up: "[i..<length ts] = i # [i + 1..<length ts]"
      by (simp add: upt_conv_Cons)
    show ?thesis
    proof (cases "afterNow (nd (ts ! i)) now")
      case False
      with True "1.IH"(2) "1.prems" up show ?thesis
        by (simp add: hourlyLoop.simps [of limit mk nd now ts i acc])
    next
      case sel: True
      show ?thesis
      proof (cases "limit \<le> length (acc @ [mk i (nd (ts ! i))])")
        case True
        with "1.prems" have "limit - length acc = 1" by simp
        with True sel \<open>i < length ts\<close> up show ?thesis
          by (simp add: hourlyLoop.simps [of limit mk nd now ts i acc])
      next
        case False
        then have lt: "length (acc @ [mk i (nd (ts ! i))]) < limit" by simp
        then have "limit - length acc = Suc (limit - length (acc @ [mk i (nd (ts ! i))]))"
          by simp
        with False sel \<open>i < length ts\<close> up "1.IH"(1) [OF \<open>i < length ts\<close> sel False lt]
        show ?thesis
          by (simp add: hourlyLoop.simps [of limit mk nd now ts i acc])
      qed
    qed
  qed
qed

lemma hourlyWindow_absent:
  "qdot (qdot currentData hourly) time = None \<Longrightarrow> hourlyWindow limit mk rt now currentData = Inr []"
  by (simp add: hourlyWindow_def)

lemma hourlyWindow_present:
  assumes "qdot currentData hourly = Some h" and "time h = Some ts" and "0 < limit"
  shows "hourlyWindow limit mk rt now currentData =
           Inr (map (\<lambda>i. mk h i (newDate rt (ts ! i))) (windowIndices limit rt now ts))"
proof -
  from assms(1) obtain w where w: "currentData = Some w" "hourly w = Some h"
    by (cases currentData) (simp_all add: qdot_def)
  have "hourlyLoop limit (mk h) (newDate rt) now ts 0 [] =
          map (\<lambda>i. mk h i (newDate rt (ts ! i))) (windowIndices limit rt now ts)"
    using hourlyLoop_eq [of "[]" limit "mk h" "newDate rt" now ts 0] assms(3)
    by (simp add: windowIndices_def)
  with w assms(2) show ?thesis
    by (simp add: hourlyWindow_def qdot_def dot_def bindE_def)
qed

lemma hourlyWindow_total: "\<exists>ys. hourlyWindow limit mk rt now currentData = Inr ys"
proof (cases "qdot (qdot currentData hourly) time")
  case None
  then show ?thesis by (simp add: hourlyWindow_absent)
next
  case (Some ts)
  then obtain w h where "currentData = Some w" "hourly w = Some h" "time h = Some ts"
    by (auto simp: qdot_def split: option.splits)
  then show ?thesis
    by (simp add: hourlyWindow_def qdot_def dot_def bindE_def)
qed

lemma hourlyWindow_empty:
  assumes "qdot (qdot currentData hourly) time = Some []"
  shows "hourlyWindow limit mk rt now currentData = Inr []"
proof -
  from assms obtain w h where "currentData = Some w" "hourly w = Some h" "time h = Some []"
    by (auto simp: qdot_def split: option.splits)
  then show ?thesis
    by (simp add: hourlyWindow_def qdot_def dot_def bindE_def hourlyLoop.simps)
qed

lemma windowIndices_length: "length (windowIndices limit rt now ts) \<le> limit"
  by (simp add: windowIndices_def)


lemma windowIndices_sorted: "sorted_wrt (<) (windowIndices limit rt now ts)"
proof -
  have "sorted_wrt (<) (filter (\<lambda>i. afterNow (newDate rt (ts ! i)) now) [0..<length ts])"
    by (rule sorted_wrt_filter) simp
  then show ?thesis
    unfolding windowIndices_def by (rule sorted_wrt_take)
qed

lemma windowIndices_member:
  assumes "i \<in> set (windowIndices limit rt now ts)"
  shows "i < length ts \<and> afterNow (newDate rt (ts ! i)) now"
proof -
  from assms have "i \<in> set (filter (\<lambda>i. afterNow (newDate rt (ts ! i)) now) [0..<length ts])"
    unfolding windowIndices_def by (rule in_set_takeD)
  then show ?thesis by simp
qed

text \<open>
  What the hourly chart data is for every response with a time array: the samples at the
  first 24 indices that pass the page's test, in the order of the input. So it has at
  most 24 samples, keeps the input order, and the walk stops at 24 samples or at the end
  of the input.
\<close>

lemma hourly_window_closed_form:
  assumes "qdot currentData hourly = Some h" and "time h = Some ts"
  shows "\<exists>is. hourlyTemperature rt now currentData =
                 Inr (map (\<lambda>i. tempPoint h i (newDate rt (ts ! i))) is)
             \<and> length is \<le> 24
             \<and> (\<forall>i \<in> set is. i < length ts \<and> afterNow (newDate rt (ts ! i)) now)
             \<and> sorted_wrt (<) is
             \<and> is = take 24 (filter (\<lambda>i. afterNow (newDate rt (ts ! i)) now) [0..<length ts])"
proof -
  let ?is = "windowIndices 24 rt now ts"
  have "hourlyTemperature rt now currentData =
          Inr (map (\<lambda>i. tempPoint h i (newDate rt (ts ! i))) ?is)"
    unfolding hourlyTemperature_def using assms by (rule hourlyWindow_present) simp
  moreover have "length ?is \<le> 24" by (rule windowIndices_length)
  moreover have "\<forall>i \<in> set ?is. i < length ts \<and> afterNow (newDate rt (ts ! i)) now"
    using windowIndices_member by blast
  moreover have "sorted_wrt (<) ?is" by (rule windowIndices_sorted)
  moreover have "?is = take 24 (filter (\<lambda>i. afterNow (newDate rt (ts ! i)) now) [0..<length ts])"
    by (simp add: windowIndices_def)
  ultimately show ?thesis by blast
qed

text \<open>
  Within one month of one year the page's test and the specification's rule coincide:
  the day of the month orders the dates.
\<close>

lemma afterNow_same_month:
  "afterNow (Date y m d h) (Date y m d0 h0) = afterNowSpec (Date y m d h) (Date y m d0 h0)"
  by (simp add: afterNow_def afterNowSpec_def laterDate_def jsgt_def)

section \<open>Fallback chains, daily rows and the historical rows\<close>

lemma jsor_unpopulated: "\<not> populated a \<Longrightarrow> jsor a b = b"
  by (cases a) (simp_all add: populated_def jsor_def)

text \<open>A two-alias chain \<^verbatim>\<open>a || b || dflt\<close> yields the first truthy operand.\<close>

lemma two_alias_chain:
  "jsor (jsor a b) dflt = (if truthy a then a else if truthy b then b else dflt)"
  by (simp add: jsor_def)

lemma jsor_Num_zero: "jsor (Num a) (Num 0) = Num a"
  by (simp add: jsor_def)

lemma jsadd_Num: "jsadd f (Num a) (Num b) = f a b"
  by (simp add: jsadd_def)

lemma jshalf_Num: "jshalf g (Num a) = g a"
  by (simp add: jshalf_def)

text \<open>\<^verbatim>\<open>sunrise?.[i] ? ... : dash\<close>: the dash unless the entry is a non-empty string.\<close>

lemma sunText_textAt:
  "sunText rt a i =
     (case textAt a i of None \<Rightarrow> dash
      | Some s \<Rightarrow> if s \<noteq> [] then timeShort rt (newDate rt s) else dash)"
  by (simp add: sunText_def textAt_def split: option.splits)

lemma jsle_Num: "jsle (Num a) (Num b) = (a \<le> b)"
  by (simp add: jsle_def not_less)

lemma dailyTemperature_nth:
  "i < length (dailyTimes fd) \<Longrightarrow>
   dailyTemperature rt fd ! i = dailyTempPoint rt fd (i, dailyTimes fd ! i)"
  by (simp add: dailyTemperature_def nth_enumerate_eq)

lemma dailyTempPoint_avg:
  "dt_avg (dailyTempPoint rt fd (i, date)) =
     jshalf (fhalf rt)
       (jsadd (fadd rt) (jsor (dq fd temperature_2m_min i) (Num 0))
                        (jsor (dq fd temperature_2m_max i) (Num 0)))"
  by (simp add: dailyTempPoint_def)

lemma exactAt_avg: "exactAt rt x y \<Longrightarrow> jshalf (fhalf rt) (fadd rt x y) = Num ((x + y) / 2)"
  by (simp add: exactAt_def jshalf_Num)

text \<open>
  The guard of \<^verbatim>\<open>formatHistoricalChartData\<close> makes the plain accesses behind it safe:
  the function is a map over the time array, or the empty array.
\<close>

lemma formatHistorical_eq:
  "formatHistoricalChartData rt data =
     Inr (map (historicalRow rt (qdot data daily))
              (enumerate 0 (case qdot (qdot data daily) time of None \<Rightarrow> [] | Some xs \<Rightarrow> xs)))"
  by (cases data)
     (auto simp: formatHistoricalChartData_def qdot_def dot_def bindE_def split: option.splits)

text \<open>The historical temperature is the first truthy value of minimum, mean, maximum, else 0.\<close>

lemma historical_fallback:
  "hi_temperature (historicalRow rt dl (i, date)) =
     (if truthy (qidx (qdot dl temperature_2m_min) i) then qidx (qdot dl temperature_2m_min) i
      else if truthy (qidx (qdot dl temperature_2m_mean) i) then qidx (qdot dl temperature_2m_mean) i
      else if truthy (qidx (qdot dl temperature_2m_max) i) then qidx (qdot dl temperature_2m_max) i
      else Num 0)"
  by (simp add: historicalRow_def jsor_def)

text \<open>
  The two examples of the specification's section 8: a day with only the mean (18)
  populated, and a day with none of the three.
\<close>

lemma historical_mean_only:
  "formatHistoricalChartData sampleRuntime (Some (dailyOnly meanOnlyDays))
     = Inr [\<lparr> hi_name = ''day'', hi_temperature = Num 18, hi_precipitation = Num 0 \<rparr>,
            \<lparr> hi_name = ''day'', hi_temperature = Num 0, hi_precipitation = Num 0 \<rparr>]"
  by (simp add: formatHistorical_eq dailyOnly_def meanOnlyDays_def emptySeries_def sampleRuntime_def
      qdot_def enumerate_eq_zip upt_rec historicalRow_def qidx_def jsor_def)

section \<open>Facts about the example inputs\<close>



lemma exampleDays_times:
  "dailyTimes (dailyOnly exampleDays) = [''2024-01-01'', ''2024-01-02'', ''2024-01-03'']"
  by (simp add: dailyTimes_def dailyOnly_def exampleDays_def emptySeries_def qdot_def)

lemma exampleDays_min:
  "dq (dailyOnly exampleDays) temperature_2m_min 0 = Num 10"
  "dq (dailyOnly exampleDays) temperature_2m_min (Suc 0) = Null"
  "dq (dailyOnly exampleDays) temperature_2m_min 2 = Undefined"
  by (simp_all add: dq_def dailyOnly_def exampleDays_def emptySeries_def qdot_def qidx_def)

lemma exampleDays_max:
  "dq (dailyOnly exampleDays) temperature_2m_max 0 = Num 20"
  "dq (dailyOnly exampleDays) temperature_2m_max (Suc 0) = Num 20"
  "dq (dailyOnly exampleDays) temperature_2m_max 2 = Undefined"
  by (simp_all add: dq_def dailyOnly_def exampleDays_def emptySeries_def qdot_def qidx_def)

text \<open>
  The scenario of section 8 computed: with the reference hour 5 on 2024-01-01, the chart
  holds the 06:00 and the 07:00 sample, in that order, and nothing else.
\<close>

lemma hourly_example:
  "hourlyTemperature sampleRuntime (Date 2024 1 1 5) (hourlyOnly exampleHours)
   = Inr [\<lparr> ht_name = ''6h'', ht_hour = Num 6, ht_temperature = Num 12, ht_feels_like = Null \<rparr>,
          \<lparr> ht_name = ''7h'', ht_hour = Num 7, ht_temperature = Num 13, ht_feels_like = Null \<rparr>]"
  by (simp add: hourlyTemperature_def hourlyWindow_def hourlyOnly_def exampleHours_def emptySeries_def
      sampleRuntime_def qdot_def dot_def bindE_def hourlyLoop.simps afterNow_def jsgt_def isoLocal_def
      tempPoint_def qidx_def jsor_def digitChar_def)

section \<open>The two classifier tables\<close>

lemma description_cases: "hourlyDescription (Num r) \<in> set categories"
  by (simp add: hourlyDescription_def categories_def jsle_Num)

lemma descriptions_agree: "dailyDescription c = hourlyDescription c"
  by (simp add: dailyDescription_def hourlyDescription_def)

lemma exact_vs_daily:
  "c \<in> set knownCodes \<Longrightarrow> c \<noteq> 2 \<Longrightarrow> c \<noteq> 3 \<Longrightarrow> getWeatherIcon (Num c) = dailyIcon (Num c)"
  by (auto simp: knownCodes_def iconMap_def dailyIcon_def jsle_Num)

lemma exact_vs_hourly:
  "c \<in> set knownCodes \<Longrightarrow> c \<notin> {2, 3, 61, 63, 65} \<Longrightarrow> getWeatherIcon (Num c) = hourlyIcon (Num c)"
  by (auto simp: knownCodes_def iconMap_def hourlyIcon_def jsle_Num)

lemma outside_exact: "c \<notin> set knownCodes \<Longrightarrow> getWeatherIcon (Num c) = ''help_outline''"
  by (simp add: knownCodes_def iconMap_def)

lemma above_86: "86 < r \<Longrightarrow> hourlyDescription (Num r) = ''Thunder''"
  by (simp add: hourlyDescription_def jsle_Num)

section \<open>C1: the daily average temperature\<close>

text \<open>
  Claim C1, as amended. For every daily sample (lines 361-372) the average is
  \<open>(min + max) / 2\<close> in the double arithmetic of the runtime, where a bound that does not
  resolve enters the sum as 0: with both bounds resolvable it is the half of their sum,
  with exactly one resolvable bound the half of the sum of 0 and that bound, with
  neither the half of 0 + 0. Wherever that sum and its half are exact, the average is
  half the sum of the two bounds (10 and 20 give exactly 15), half of the lone bound
  (only max = 20 gives 10), and 0 with neither bound.
\<close>

theorem daily_mean_half_sum:
  assumes "i < length (dailyTimes fd)"
  shows "dt_avg (dailyTemperature rt fd ! i) =
           jshalf (fhalf rt)
             (jsadd (fadd rt) (jsor (dq fd temperature_2m_min i) (Num 0))
                              (jsor (dq fd temperature_2m_max i) (Num 0)))
       \<and> (dq fd temperature_2m_min i = Num a \<and> dq fd temperature_2m_max i = Num b
            \<longrightarrow> dt_avg (dailyTemperature rt fd ! i) = jshalf (fhalf rt) (fadd rt a b))
       \<and> (\<not> populated (dq fd temperature_2m_min i) \<and> dq fd temperature_2m_max i = Num b
            \<longrightarrow> dt_avg (dailyTemperature rt fd ! i) = jshalf (fhalf rt) (fadd rt 0 b))
       \<and> (dq fd temperature_2m_min i = Num a \<and> \<not> populated (dq fd temperature_2m_max i)
            \<longrightarrow> dt_avg (dailyTemperature rt fd ! i) = jshalf (fhalf rt) (fadd rt a 0))
       \<and> (\<not> populated (dq fd temperature_2m_min i) \<and> \<not> populated (dq fd temperature_2m_max i)
            \<longrightarrow> dt_avg (dailyTemperature rt fd ! i) = jshalf (fhalf rt) (fadd rt 0 0))
       \<and> (dq fd temperature_2m_min i = Num a \<and> dq fd temperature_2m_max i = Num b
            \<and> exactAt rt a b
            \<longrightarrow> dt_avg (dailyTemperature rt fd ! i) = Num ((a + b) / 2))
       \<and> (\<not> populated (dq fd temperature_2m_min i) \<and> dq fd temperature_2m_max i = Num b
            \<and> exactAt rt 0 b
            \<longrightarrow> dt_avg (dailyTemperature rt fd ! i) = Num (b / 2))
       \<and> (dq fd temperature_2m_min i = Num a \<and> \<not> populated (dq fd temperature_2m_max i)
            \<and> exactAt rt a 0
            \<longrightarrow> dt_avg (dailyTemperature rt fd ! i) = Num (a / 2))
       \<and> (\<not> populated (dq fd temperature_2m_min i) \<and> \<not> populated (dq fd temperature_2m_max i)
            \<and> exactAt rt 0 0
            \<longrightarrow> dt_avg (dailyTemperature rt fd ! i) = Num 0)"
proof -
  let ?mn = "dq fd temperature_2m_min i"
  let ?mx = "dq fd temperature_2m_max i"
  have avg: "dt_avg (dailyTemperature rt fd ! i) =
           jshalf (fhalf rt) (jsadd (fadd rt) (jsor ?mn (Num 0)) (jsor ?mx (Num 0)))"
    using assms by (simp add: dailyTemperature_nth dailyTempPoint_avg)
  have both: "dt_avg (dailyTemperature rt fd ! i) = jshalf (fhalf rt) (fadd rt a b)"
    if "?mn = Num a \<and> ?mx = Num b"
    using that by (simp add: avg jsor_Num_zero jsadd_Num)
  have onlymax: "dt_avg (dailyTemperature rt fd ! i) = jshalf (fhalf rt) (fadd rt 0 b)"
    if "\<not> populated ?mn \<and> ?mx = Num b"
    using that by (simp add: avg jsor_unpopulated jsor_Num_zero jsadd_Num)
  have onlymin: "dt_avg (dailyTemperature rt fd ! i) = jshalf (fhalf rt) (fadd rt a 0)"
    if "?mn = Num a \<and> \<not> populated ?mx"
    using that by (simp add: avg jsor_unpopulated jsor_Num_zero jsadd_Num)
  have neither: "dt_avg (dailyTemperature rt fd ! i) = jshalf (fhalf rt) (fadd rt 0 0)"
    if "\<not> populated ?mn \<and> \<not> populated ?mx"
    using that by (simp add: avg jsor_unpopulated jsadd_Num)
  have e1: "dt_avg (dailyTemperature rt fd ! i) = Num ((a + b) / 2)"
    if "?mn = Num a \<and> ?mx = Num b \<and> exactAt rt a b"
    using that both exactAt_avg [of rt a b] by simp
  have e2: "dt_avg (dailyTemperature rt fd ! i) = Num (b / 2)"
    if "\<not> populated ?mn \<and> ?mx = Num b \<and> exactAt rt 0 b"
    using that onlymax exactAt_avg [of rt 0 b] by simp
  have e3: "dt_avg (dailyTemperature rt fd ! i) = Num (a / 2)"
    if "?mn = Num a \<and> \<not> populated ?mx \<and> exactAt rt a 0"
    using that onlymin exactAt_avg [of rt a 0] by simp
  have e4: "dt_avg (dailyTemperature rt fd ! i) = Num 0"
    if "\<not> populated ?mn \<and> \<not> populated ?mx \<and> exactAt rt 0 0"
    using that neither exactAt_avg [of rt 0 0] by simp
  from avg both onlymax onlymin neither e1 e2 e3 e4 show ?thesis by blast
qed

lemma sampleRuntime_exact: "exactAt sampleRuntime x y"
  by (simp add: exactAt_def sampleRuntime_def)

theorem daily_mean_half_sum_witness:
  "0 < length (dailyTimes (dailyOnly exampleDays))
   \<and> exactAt sampleRuntime 10 20 \<and> exactAt sampleRuntime 0 20 \<and> exactAt sampleRuntime 0 0
   \<and> dt_avg (dailyTemperature sampleRuntime (dailyOnly exampleDays) ! 0) = Num 15
   \<and> dt_avg (dailyTemperature sampleRuntime (dailyOnly exampleDays) ! Suc 0) = Num 10
   \<and> dt_avg (dailyTemperature sampleRuntime (dailyOnly exampleDays) ! 2) = Num 0"
proof -
  have l: "0 < length (dailyTimes (dailyOnly exampleDays))"
    "Suc 0 < length (dailyTimes (dailyOnly exampleDays))"
    "2 < length (dailyTimes (dailyOnly exampleDays))"
    by (simp_all add: exampleDays_times)
  have m: "\<not> populated (dq (dailyOnly exampleDays) temperature_2m_min (Suc 0))"
    "\<not> populated (dq (dailyOnly exampleDays) temperature_2m_min 2)"
    "\<not> populated (dq (dailyOnly exampleDays) temperature_2m_max 2)"
    by (simp_all add: exampleDays_min exampleDays_max populated_def)
  have d0: "dt_avg (dailyTemperature sampleRuntime (dailyOnly exampleDays) ! 0) = Num ((10 + 20) / 2)"
    using daily_mean_half_sum [OF l(1), where rt = sampleRuntime and a = 10 and b = 20]
      exampleDays_min(1) exampleDays_max(1) sampleRuntime_exact
    by blast
  have d1: "dt_avg (dailyTemperature sampleRuntime (dailyOnly exampleDays) ! Suc 0) = Num (20 / 2)"
    using daily_mean_half_sum [OF l(2), where rt = sampleRuntime and b = 20]
      m(1) exampleDays_max(2) sampleRuntime_exact
    by blast
  have d2: "dt_avg (dailyTemperature sampleRuntime (dailyOnly exampleDays) ! 2) = Num 0"
    using daily_mean_half_sum [OF l(3), where rt = sampleRuntime] m(2) m(3) sampleRuntime_exact
    by blast
  from d0 d1 d2 l(1) show ?thesis by (simp add: sampleRuntime_exact)
qed

text \<open>
  Claim C1 as stated fails on the second of the example days: only the maximum, 20, is
  present, and the average is 10, not 20.
\<close>

theorem daily_mean_lone_bound_counterexample:
  "\<not> populated (dq (dailyOnly exampleDays) temperature_2m_min 1)
   \<and> dq (dailyOnly exampleDays) temperature_2m_max 1 = Num 20
   \<and> dt_avg (dailyTemperature sampleRuntime (dailyOnly exampleDays) ! 1) = Num 10
   \<and> dt_avg (dailyTemperature sampleRuntime (dailyOnly exampleDays) ! 1) \<noteq> Num 20"
  by (simp add: dailyTemperature_nth dailyTempPoint_avg exampleDays_times exampleDays_min
      exampleDays_max populated_def jsor_def jsadd_def jshalf_def sampleRuntime_def)

section \<open>C2: a value of zero in the alias chain\<close>

text \<open>
  Claim C2 says that the highest-priority populated alias wins, also when its value is 0.
  The page at such an input (lines 169-173): the hour has \<^verbatim>\<open>temperature_2m = 0\<close>,
  \<^verbatim>\<open>temperature = 5\<close> and \<^verbatim>\<open>apparent_temperature = 0\<close>. The chart shows the
  temperature 5, taken from the second alias, and no feels-like value at all (null),
  where the claim gives 0 for both.
\<close>

theorem zero_datum_skipped:
  "hourlyTemperature sampleRuntime (Date 2024 1 1 5) (hourlyOnly twoAliasHour)
     = Inr [\<lparr> ht_name = ''6h'', ht_hour = Num 6, ht_temperature = Num 5, ht_feels_like = Null \<rparr>]"
  by (simp add: hourlyTemperature_def hourlyWindow_def hourlyOnly_def twoAliasHour_def emptySeries_def
      sampleRuntime_def qdot_def dot_def bindE_def hourlyLoop.simps afterNow_def jsgt_def isoLocal_def
      tempPoint_def qidx_def jsor_def digitChar_def)

section \<open>C3: the inclusion test across the end of a month\<close>

text \<open>
  Claim C3 includes a sample when its calendar date is strictly later than the reference
  date. The page at the reference instant 2024-01-31, 10 o'clock, with the single sample
  2024-02-01T05:00 (lines 160-178): the sample's date is later, so the claim's rule
  includes it, and the page's window is empty, since neither 5 > 10 nor 1 > 31.
\<close>

theorem month_rollover_excluded:
  "afterNowSpec (isoLocal ''2024-02-01T05:00'') (Date 2024 1 31 10)
   \<and> hourlyTemperature sampleRuntime (Date 2024 1 31 10) (hourlyOnly rolloverHours) = Inr []"
  by (simp add: hourlyTemperature_def hourlyWindow_def hourlyOnly_def rolloverHours_def emptySeries_def
      sampleRuntime_def qdot_def dot_def bindE_def hourlyLoop.simps afterNow_def jsgt_def isoLocal_def
      afterNowSpec_def laterDate_def)

section \<open>C4: the weather condition classifier\<close>

text \<open>
  Claim C4, as amended. The range classifier (lines 308-316, and its copy at 397-423) is
  total on the integers: every integer code gets exactly one of the seven labels Clear,
  Cloudy, Drizzle, Rain, Snow, Showers, Thunder, never Unknown, and every code above 86
  is Thunder; code 0 is Clear, 61 is Rain, 95 is Thunder. On the listed provider codes
  other than 2 and 3 the exact-match table \<^verbatim>\<open>getWeatherIcon\<close> and the daily range table
  give the same icon, and so does the hourly range table on the listed codes other than
  2, 3, 61, 63 and 65; on 2 and 3 the exact-match table gives \<^verbatim>\<open>cloud\<close> where the band
  up to 3 of the range table gives \<^verbatim>\<open>wb_sunny\<close>. A code outside the exact-match table
  gets the icon \<^verbatim>\<open>help_outline\<close> from \<^verbatim>\<open>getWeatherIcon\<close>.
\<close>

theorem classifier_total_tables:
  "(\<forall>n::int. hourlyDescription (Num (of_int n)) \<in> set categories
        \<and> dailyDescription (Num (of_int n)) = hourlyDescription (Num (of_int n)))
   \<and> ''Unknown'' \<notin> set categories
   \<and> hourlyDescription (Num 0) = ''Clear''
   \<and> hourlyDescription (Num 61) = ''Rain''
   \<and> hourlyDescription (Num 95) = ''Thunder''
   \<and> (\<forall>c \<in> set knownCodes. c \<noteq> 2 \<and> c \<noteq> 3 \<longrightarrow> getWeatherIcon (Num c) = dailyIcon (Num c))
   \<and> (\<forall>c \<in> set knownCodes. c \<notin> {2, 3, 61, 63, 65} \<longrightarrow> getWeatherIcon (Num c) = hourlyIcon (Num c))
   \<and> getWeatherIcon (Num 2) = ''cloud'' \<and> dailyIcon (Num 2) = ''wb_sunny''
   \<and> getWeatherIcon (Num 3) = ''cloud'' \<and> dailyIcon (Num 3) = ''wb_sunny''
   \<and> (\<forall>c. c \<notin> set knownCodes \<longrightarrow> getWeatherIcon (Num c) = ''help_outline'')
   \<and> (\<forall>n::int. 86 < n \<longrightarrow> hourlyDescription (Num (of_int n)) = ''Thunder'')"
proof (intro conjI allI ballI impI)
  fix n :: int
  show "hourlyDescription (Num (of_int n)) \<in> set categories" by (rule description_cases)
  show "dailyDescription (Num (of_int n)) = hourlyDescription (Num (of_int n))"
    by (rule descriptions_agree)
  show "hourlyDescription (Num (of_int n)) = ''Thunder''" if "86 < n"
    using that by (intro above_86) simp
next
  show "''Unknown'' \<notin> set categories" by (simp add: categories_def)
  show "hourlyDescription (Num 0) = ''Clear''" by (simp add: hourlyDescription_def jsle_Num)
  show "hourlyDescription (Num 61) = ''Rain''" by (simp add: hourlyDescription_def jsle_Num)
  show "hourlyDescription (Num 95) = ''Thunder''" by (simp add: hourlyDescription_def jsle_Num)
  show "getWeatherIcon (Num 2) = ''cloud''" by (simp add: iconMap_def)
  show "getWeatherIcon (Num 3) = ''cloud''" by (simp add: iconMap_def)
  show "dailyIcon (Num 2) = ''wb_sunny''" by (simp add: dailyIcon_def jsle_Num)
  show "dailyIcon (Num 3) = ''wb_sunny''" by (simp add: dailyIcon_def jsle_Num)
next
  fix c :: real assume "c \<in> set knownCodes" "c \<noteq> 2 \<and> c \<noteq> 3"
  then show "getWeatherIcon (Num c) = dailyIcon (Num c)" by (intro exact_vs_daily) simp_all
next
  fix c :: real assume "c \<in> set knownCodes" "c \<notin> {2, 3, 61, 63, 65}"
  then show "getWeatherIcon (Num c) = hourlyIcon (Num c)" by (rule exact_vs_hourly)
next
  fix c :: real assume "c \<notin> set knownCodes"
  then show "getWeatherIcon (Num c) = ''help_outline''" by (rule outside_exact)
qed

theorem classifier_total_tables_witness:
  "hourlyDescription (Num (of_int 61)) \<in> set categories
   \<and> (61::real) \<in> set knownCodes \<and> getWeatherIcon (Num 61) = dailyIcon (Num 61)
   \<and> (80::real) \<in> set knownCodes \<and> getWeatherIcon (Num 80) = hourlyIcon (Num 80)
   \<and> (4::real) \<notin> set knownCodes \<and> getWeatherIcon (Num 4) = ''help_outline''
   \<and> (86::int) < 90 \<and> hourlyDescription (Num (of_int 90)) = ''Thunder''"
proof -
  have k61: "(61::real) \<in> set knownCodes" "(61::real) \<noteq> 2 \<and> (61::real) \<noteq> 3"
    by (simp_all add: knownCodes_def)
  have k80: "(80::real) \<in> set knownCodes" "(80::real) \<notin> {2, 3, 61, 63, 65}"
    by (simp_all add: knownCodes_def)
  have k4: "(4::real) \<notin> set knownCodes" by (simp add: knownCodes_def)
  have k90: "(86::int) < 90" by simp
  from classifier_total_tables k61 k80 k4 k90 show ?thesis by blast
qed

text \<open>
  Claim C4 as stated fails in two ways. The tables disagree on listed codes: on 2 and 3
  the exact-match table gives \<^verbatim>\<open>cloud\<close> and both range tables give \<^verbatim>\<open>wb_sunny\<close>,
  and on 61 the exact-match table gives \<^verbatim>\<open>rainy\<close> and the hourly range table
  \<^verbatim>\<open>ac_unit\<close>. And the code 100, which is in neither the exact-match table nor a
  bounded band of the range table, is classified Thunder with the \<^verbatim>\<open>thunderstorm\<close>
  icon, not Unknown.
\<close>

theorem classifier_tables_counterexample:
  "2 \<in> set knownCodes
   \<and> getWeatherIcon (Num 2) = ''cloud''
   \<and> hourlyIcon (Num 2) = ''wb_sunny''
   \<and> dailyIcon (Num 2) = ''wb_sunny''
   \<and> 3 \<in> set knownCodes
   \<and> getWeatherIcon (Num 3) = ''cloud''
   \<and> hourlyIcon (Num 3) = ''wb_sunny''
   \<and> dailyIcon (Num 3) = ''wb_sunny''
   \<and> 61 \<in> set knownCodes
   \<and> getWeatherIcon (Num 61) = ''rainy''
   \<and> hourlyIcon (Num 61) = ''ac_unit''
   \<and> 100 \<notin> set knownCodes
   \<and> hourlyDescription (Num 100) = ''Thunder''
   \<and> hourlyIcon (Num 100) = ''thunderstorm''"
  by (simp add: knownCodes_def iconMap_def hourlyIcon_def dailyIcon_def hourlyDescription_def jsle_Num)

section \<open>C5: what an unresolvable datum degrades to\<close>

text \<open>
  Claim C5, as amended. For every input sample where a datum is not resolvable (array
  absent, index out of range, or a null entry) the output takes the default of its field
  and no error is returned. Every numeric magnitude with a zero default becomes 0:
  hourly temperature, precipitation probability and amount, humidity and wind speed;
  daily minimum and maximum temperature (their average being the runtime's half of
  0 + 0), wind speed, humidity, precipitation probability and sum; historical
  temperature and precipitation. An unresolvable feels-like value becomes null. A missing weather code is read as code 0 and so yields the condition
  Clear with the icon \<^verbatim>\<open>wb_sunny\<close>, in the hourly boxes, the daily cards and the daily
  tiles. A missing sunrise or sunset renders as the dash placeholder. A wholly missing
  collection yields the empty sequence.
\<close>

theorem unresolved_degrades_to_default:
  "(\<not> populated (qidx (weather_code h) i) \<longrightarrow>
       hc_description (conditionBox h i d) = ''Clear''
       \<and> hc_weatherIcon (conditionBox h i d) = ''wb_sunny'')
   \<and> (\<not> populated (qidx (temperature_2m h) i) \<and> \<not> populated (qidx (temperature h) i) \<longrightarrow>
       ht_temperature (tempPoint h i d) = Num 0)
   \<and> (\<not> populated (qidx (apparent_temperature h) i)
        \<and> \<not> populated (qidx (apparentTemperature h) i) \<longrightarrow>
       ht_feels_like (tempPoint h i d) = Null)
   \<and> (\<not> populated (qidx (precipitation_probability h) i) \<longrightarrow>
       hp_probability (precipPoint h i d) = Num 0)
   \<and> (\<not> populated (qidx (precipitation h) i) \<and> \<not> populated (qidx (precipitation_sum h) i) \<longrightarrow>
       hp_amount (precipPoint h i d) = Num 0)
   \<and> (\<not> populated (qidx (relative_humidity_2m h) i) \<and> \<not> populated (qidx (humidity h) i) \<longrightarrow>
       hd_humidity (detailBox h i d) = Num 0)
   \<and> (\<not> populated (qidx (wind_speed_10m h) i) \<and> \<not> populated (qidx (wind_speed h) i) \<longrightarrow>
       hd_windSpeed (detailBox h i d) = Num 0)
   \<and> (\<not> populated (dq forecastData temperature_2m_min i) \<longrightarrow>
       dt_min (dailyTempPoint rt forecastData (i, date)) = Num 0)
   \<and> (\<not> populated (dq forecastData temperature_2m_max i) \<longrightarrow>
       dt_max (dailyTempPoint rt forecastData (i, date)) = Num 0)
   \<and> (\<not> populated (dq forecastData temperature_2m_min i)
        \<and> \<not> populated (dq forecastData temperature_2m_max i) \<longrightarrow>
       dt_avg (dailyTempPoint rt forecastData (i, date)) = jshalf (fhalf rt) (fadd rt 0 0))
   \<and> (\<not> populated (dq forecastData wind_speed_10m i)
        \<and> \<not> populated (dq forecastData wind_speed i) \<longrightarrow>
       dd_windSpeed (dailyDetailCard rt forecastData (i, date)) = Num 0
       \<and> dailyTileWind forecastData i = Num 0)
   \<and> (\<not> populated (dq forecastData relative_humidity_2m i)
        \<and> \<not> populated (dq forecastData humidity i) \<longrightarrow>
       dd_humidity (dailyDetailCard rt forecastData (i, date)) = Num 0)
   \<and> (\<not> populated (dq forecastData precipitation_probability_max i) \<longrightarrow>
       dd_precipProb (dailyDetailCard rt forecastData (i, date)) = Num 0
       \<and> dp_probability (dailyPrecipPoint rt forecastData (i, date)) = Num 0)
   \<and> (\<not> populated (dq forecastData precipitation_sum i) \<longrightarrow>
       dd_precipSum (dailyDetailCard rt forecastData (i, date)) = Num 0
       \<and> dp_amount (dailyPrecipPoint rt forecastData (i, date)) = Num 0)
   \<and> (\<not> populated (dq forecastData weather_code i) \<longrightarrow>
       dd_weatherCode (dailyDetailCard rt forecastData (i, date)) = Num 0
       \<and> dd_description (dailyDetailCard rt forecastData (i, date)) = ''Clear''
       \<and> dd_weatherIcon (dailyDetailCard rt forecastData (i, date)) = ''wb_sunny''
       \<and> dailyTileIcon forecastData i = ''wb_sunny'')
   \<and> (textAt (qdot (daily forecastData) sunrise) i = None \<longrightarrow>
       dd_sunrise (dailyDetailCard rt forecastData (i, date)) = dash)
   \<and> (textAt (qdot (daily forecastData) sunset) i = None \<longrightarrow>
       dd_sunset (dailyDetailCard rt forecastData (i, date)) = dash)
   \<and> (\<not> populated (qidx (qdot dl temperature_2m_min) i)
        \<and> \<not> populated (qidx (qdot dl temperature_2m_mean) i)
        \<and> \<not> populated (qidx (qdot dl temperature_2m_max) i) \<longrightarrow>
       hi_temperature (historicalRow rt dl (i, date)) = Num 0)
   \<and> (\<not> populated (qidx (qdot dl precipitation_sum) i) \<longrightarrow>
       hi_precipitation (historicalRow rt dl (i, date)) = Num 0)
   \<and> (qdot (qdot data daily) time = None \<longrightarrow> formatHistoricalChartData rt data = Inr [])
   \<and> (qdot (qdot currentData hourly) time = None \<longrightarrow>
       hourlyTemperature rt now currentData = Inr []
       \<and> hourlyPrecipitation rt now currentData = Inr []
       \<and> hourlyDetails rt now currentData = Inr []
       \<and> hourlyConditions rt now currentData = Inr [])
   \<and> (qdot (daily forecastData) time = None \<longrightarrow>
       dailyTemperature rt forecastData = [] \<and> dailyDetails rt forecastData = []
       \<and> dailyPrecipitation rt forecastData = [])
   \<and> (\<exists>ys. formatHistoricalChartData rt data = Inr ys)
   \<and> (\<exists>ys. hourlyTemperature rt now currentData = Inr ys)
   \<and> (\<exists>ys. hourlyPrecipitation rt now currentData = Inr ys)
   \<and> (\<exists>ys. hourlyDetails rt now currentData = Inr ys)
   \<and> (\<exists>ys. hourlyConditions rt now currentData = Inr ys)"
proof (intro conjI impI)
  assume "\<not> populated (qidx (weather_code h) i)"
  then have c: "jsor (qidx (weather_code h) i) (Num 0) = Num 0" by (rule jsor_unpopulated)
  show "hc_description (conditionBox h i d) = ''Clear''"
    by (simp add: conditionBox_def c hourlyDescription_def jsle_Num)
  show "hc_weatherIcon (conditionBox h i d) = ''wb_sunny''"
    by (simp add: conditionBox_def c hourlyIcon_def jsle_Num)
next
  assume "\<not> populated (qidx (temperature_2m h) i) \<and> \<not> populated (qidx (temperature h) i)"
  then show "ht_temperature (tempPoint h i d) = Num 0"
    by (simp add: tempPoint_def jsor_unpopulated)
next
  assume "\<not> populated (qidx (apparent_temperature h) i)
        \<and> \<not> populated (qidx (apparentTemperature h) i)"
  then show "ht_feels_like (tempPoint h i d) = Null"
    by (simp add: tempPoint_def jsor_unpopulated)
next
  assume "\<not> populated (qidx (precipitation_probability h) i)"
  then show "hp_probability (precipPoint h i d) = Num 0"
    by (simp add: precipPoint_def jsor_unpopulated)
next
  assume "\<not> populated (qidx (precipitation h) i) \<and> \<not> populated (qidx (precipitation_sum h) i)"
  then show "hp_amount (precipPoint h i d) = Num 0"
    by (simp add: precipPoint_def jsor_unpopulated)
next
  assume "\<not> populated (qidx (relative_humidity_2m h) i) \<and> \<not> populated (qidx (humidity h) i)"
  then show "hd_humidity (detailBox h i d) = Num 0"
    by (simp add: detailBox_def jsor_unpopulated)
next
  assume "\<not> populated (qidx (wind_speed_10m h) i) \<and> \<not> populated (qidx (wind_speed h) i)"
  then show "hd_windSpeed (detailBox h i d) = Num 0"
    by (simp add: detailBox_def jsor_unpopulated)
next
  assume "\<not> populated (dq forecastData temperature_2m_min i)"
  then show "dt_min (dailyTempPoint rt forecastData (i, date)) = Num 0"
    by (simp add: dailyTempPoint_def jsor_unpopulated)
next
  assume "\<not> populated (dq forecastData temperature_2m_max i)"
  then show "dt_max (dailyTempPoint rt forecastData (i, date)) = Num 0"
    by (simp add: dailyTempPoint_def jsor_unpopulated)
next
  assume "\<not> populated (dq forecastData temperature_2m_min i)
        \<and> \<not> populated (dq forecastData temperature_2m_max i)"
  then show "dt_avg (dailyTempPoint rt forecastData (i, date)) = jshalf (fhalf rt) (fadd rt 0 0)"
    by (simp add: dailyTempPoint_avg jsor_unpopulated jsadd_Num)
next
  assume a: "\<not> populated (dq forecastData wind_speed_10m i)
        \<and> \<not> populated (dq forecastData wind_speed i)"
  then show "dd_windSpeed (dailyDetailCard rt forecastData (i, date)) = Num 0"
    by (simp add: dailyDetailCard_def jsor_unpopulated)
  from a show "dailyTileWind forecastData i = Num 0"
    by (simp add: dailyTileWind_def jsor_unpopulated)
next
  assume "\<not> populated (dq forecastData relative_humidity_2m i)
        \<and> \<not> populated (dq forecastData humidity i)"
  then show "dd_humidity (dailyDetailCard rt forecastData (i, date)) = Num 0"
    by (simp add: dailyDetailCard_def jsor_unpopulated)
next
  assume a: "\<not> populated (dq forecastData precipitation_probability_max i)"
  then show "dd_precipProb (dailyDetailCard rt forecastData (i, date)) = Num 0"
    by (simp add: dailyDetailCard_def jsor_unpopulated)
  from a show "dp_probability (dailyPrecipPoint rt forecastData (i, date)) = Num 0"
    by (simp add: dailyPrecipPoint_def jsor_unpopulated)
next
  assume a: "\<not> populated (dq forecastData precipitation_sum i)"
  then show "dd_precipSum (dailyDetailCard rt forecastData (i, date)) = Num 0"
    by (simp add: dailyDetailCard_def jsor_unpopulated)
  from a show "dp_amount (dailyPrecipPoint rt forecastData (i, date)) = Num 0"
    by (simp add: dailyPrecipPoint_def jsor_unpopulated)
next
  assume u: "\<not> populated (dq forecastData weather_code i)"
  then have c: "jsor (dq forecastData weather_code i) (Num 0) = Num 0" by (rule jsor_unpopulated)
  from u have n: "nullish (dq forecastData weather_code i) (Num 0) = Num 0"
    by (simp add: populated_def nullish_def)
  show "dd_weatherCode (dailyDetailCard rt forecastData (i, date)) = Num 0"
    by (simp add: dailyDetailCard_def c)
  show "dd_description (dailyDetailCard rt forecastData (i, date)) = ''Clear''"
    by (simp add: dailyDetailCard_def c dailyDescription_def jsle_Num)
  show "dd_weatherIcon (dailyDetailCard rt forecastData (i, date)) = ''wb_sunny''"
    by (simp add: dailyDetailCard_def c dailyIcon_def jsle_Num)
  show "dailyTileIcon forecastData i = ''wb_sunny''"
    by (simp add: dailyTileIcon_def n iconMap_def)
next
  assume "textAt (qdot (daily forecastData) sunrise) i = None"
  then show "dd_sunrise (dailyDetailCard rt forecastData (i, date)) = dash"
    by (simp add: dailyDetailCard_def sunText_textAt)
next
  assume "textAt (qdot (daily forecastData) sunset) i = None"
  then show "dd_sunset (dailyDetailCard rt forecastData (i, date)) = dash"
    by (simp add: dailyDetailCard_def sunText_textAt)
next
  assume "\<not> populated (qidx (qdot dl temperature_2m_min) i)
        \<and> \<not> populated (qidx (qdot dl temperature_2m_mean) i)
        \<and> \<not> populated (qidx (qdot dl temperature_2m_max) i)"
  then show "hi_temperature (historicalRow rt dl (i, date)) = Num 0"
    by (simp add: historicalRow_def jsor_unpopulated)
next
  assume "\<not> populated (qidx (qdot dl precipitation_sum) i)"
  then show "hi_precipitation (historicalRow rt dl (i, date)) = Num 0"
    by (simp add: historicalRow_def jsor_unpopulated)
next
  assume "qdot (qdot data daily) time = None"
  then show "formatHistoricalChartData rt data = Inr []" by (simp add: formatHistorical_eq)
next
  assume a: "qdot (qdot currentData hourly) time = None"
  show "hourlyTemperature rt now currentData = Inr []"
    unfolding hourlyTemperature_def using a by (rule hourlyWindow_absent)
  show "hourlyPrecipitation rt now currentData = Inr []"
    unfolding hourlyPrecipitation_def using a by (rule hourlyWindow_absent)
  show "hourlyDetails rt now currentData = Inr []"
    unfolding hourlyDetails_def using a by (rule hourlyWindow_absent)
  show "hourlyConditions rt now currentData = Inr []"
    unfolding hourlyConditions_def using a by (rule hourlyWindow_absent)
next
  assume a: "qdot (daily forecastData) time = None"
  then show "dailyTemperature rt forecastData = []"
    by (simp add: dailyTemperature_def dailyTimes_def)
  from a show "dailyDetails rt forecastData = []"
    by (simp add: dailyDetails_def dailyTimes_def)
  from a show "dailyPrecipitation rt forecastData = []"
    by (simp add: dailyPrecipitation_def dailyTimes_def)
next
  show "\<exists>ys. formatHistoricalChartData rt data = Inr ys" by (simp add: formatHistorical_eq)
  show "\<exists>ys. hourlyTemperature rt now currentData = Inr ys"
    unfolding hourlyTemperature_def by (rule hourlyWindow_total)
  show "\<exists>ys. hourlyPrecipitation rt now currentData = Inr ys"
    unfolding hourlyPrecipitation_def by (rule hourlyWindow_total)
  show "\<exists>ys. hourlyDetails rt now currentData = Inr ys"
    unfolding hourlyDetails_def by (rule hourlyWindow_total)
  show "\<exists>ys. hourlyConditions rt now currentData = Inr ys"
    unfolding hourlyConditions_def by (rule hourlyWindow_total)
qed

text \<open>
  The theorem at inputs without data: an hourly section with no array at all, the first
  of the sparse days (a null minimum and a null sunrise, every other array absent), and
  responses without the hourly and the daily section.
\<close>

theorem unresolved_degrades_to_default_witness:
  "\<not> populated (qidx (weather_code emptySeries) 0)
   \<and> \<not> populated (dq (dailyOnly sparseDays) temperature_2m_min 0)
   \<and> textAt (qdot (daily (dailyOnly sparseDays)) sunrise) 0 = None
   \<and> hc_description (conditionBox emptySeries 0 (Date 2024 1 1 6)) = ''Clear''
   \<and> hc_weatherIcon (conditionBox emptySeries 0 (Date 2024 1 1 6)) = ''wb_sunny''
   \<and> ht_temperature (tempPoint emptySeries 0 (Date 2024 1 1 6)) = Num 0
   \<and> ht_feels_like (tempPoint emptySeries 0 (Date 2024 1 1 6)) = Null
   \<and> hp_probability (precipPoint emptySeries 0 (Date 2024 1 1 6)) = Num 0
   \<and> hp_amount (precipPoint emptySeries 0 (Date 2024 1 1 6)) = Num 0
   \<and> hd_humidity (detailBox emptySeries 0 (Date 2024 1 1 6)) = Num 0
   \<and> hd_windSpeed (detailBox emptySeries 0 (Date 2024 1 1 6)) = Num 0
   \<and> dt_min (dailyTempPoint sampleRuntime (dailyOnly sparseDays) (0, ''2024-01-01'')) = Num 0
   \<and> dt_max (dailyTempPoint sampleRuntime (dailyOnly sparseDays) (0, ''2024-01-01'')) = Num 0
   \<and> dd_windSpeed (dailyDetailCard sampleRuntime (dailyOnly sparseDays) (0, ''2024-01-01'')) = Num 0
   \<and> dd_humidity (dailyDetailCard sampleRuntime (dailyOnly sparseDays) (0, ''2024-01-01'')) = Num 0
   \<and> dd_precipProb (dailyDetailCard sampleRuntime (dailyOnly sparseDays) (0, ''2024-01-01'')) = Num 0
   \<and> dd_precipSum (dailyDetailCard sampleRuntime (dailyOnly sparseDays) (0, ''2024-01-01'')) = Num 0
   \<and> dp_amount (dailyPrecipPoint sampleRuntime (dailyOnly sparseDays) (0, ''2024-01-01'')) = Num 0
   \<and> dp_probability (dailyPrecipPoint sampleRuntime (dailyOnly sparseDays) (0, ''2024-01-01'')) = Num 0
   \<and> dailyTileWind (dailyOnly sparseDays) 0 = Num 0
   \<and> dd_description (dailyDetailCard sampleRuntime (dailyOnly sparseDays) (0, ''2024-01-01'')) = ''Clear''
   \<and> dd_weatherIcon (dailyDetailCard sampleRuntime (dailyOnly sparseDays) (0, ''2024-01-01'')) = ''wb_sunny''
   \<and> dailyTileIcon (dailyOnly sparseDays) 0 = ''wb_sunny''
   \<and> dd_sunrise (dailyDetailCard sampleRuntime (dailyOnly sparseDays) (0, ''2024-01-01'')) = dash
   \<and> dd_sunset (dailyDetailCard sampleRuntime (dailyOnly sparseDays) (0, ''2024-01-01'')) = dash
   \<and> hi_temperature (historicalRow sampleRuntime None (0, ''2024-01-01'')) = Num 0
   \<and> hi_precipitation (historicalRow sampleRuntime None (0, ''2024-01-01'')) = Num 0
   \<and> formatHistoricalChartData sampleRuntime None = Inr []
   \<and> hourlyConditions sampleRuntime (Date 2024 1 1 5) None = Inr []
   \<and> dailyTemperature sampleRuntime \<lparr> hourly = None, daily = None \<rparr> = []
   \<and> dailyPrecipitation sampleRuntime \<lparr> hourly = None, daily = None \<rparr> = []"
proof -
  have e: "\<not> populated (qidx (weather_code emptySeries) 0)"
    "\<not> populated (qidx (temperature_2m emptySeries) 0)"
    "\<not> populated (qidx (temperature emptySeries) 0)"
    "\<not> populated (qidx (apparent_temperature emptySeries) 0)"
    "\<not> populated (qidx (apparentTemperature emptySeries) 0)"
    "\<not> populated (qidx (precipitation_probability emptySeries) 0)"
    "\<not> populated (qidx (precipitation emptySeries) 0)"
    "\<not> populated (qidx (precipitation_sum emptySeries) 0)"
    "\<not> populated (qidx (relative_humidity_2m emptySeries) 0)"
    "\<not> populated (qidx (humidity emptySeries) 0)"
    "\<not> populated (qidx (wind_speed_10m emptySeries) 0)"
    "\<not> populated (qidx (wind_speed emptySeries) 0)"
    by (simp_all add: emptySeries_def qidx_def populated_def)
  have f: "\<not> populated (dq (dailyOnly sparseDays) temperature_2m_min 0)"
    "\<not> populated (dq (dailyOnly sparseDays) temperature_2m_max 0)"
    "\<not> populated (dq (dailyOnly sparseDays) wind_speed_10m 0)"
    "\<not> populated (dq (dailyOnly sparseDays) wind_speed 0)"
    "\<not> populated (dq (dailyOnly sparseDays) relative_humidity_2m 0)"
    "\<not> populated (dq (dailyOnly sparseDays) humidity 0)"
    "\<not> populated (dq (dailyOnly sparseDays) precipitation_probability_max 0)"
    "\<not> populated (dq (dailyOnly sparseDays) precipitation_sum 0)"
    "\<not> populated (dq (dailyOnly sparseDays) weather_code 0)"
    by (simp_all add: dq_def dailyOnly_def sparseDays_def emptySeries_def qdot_def qidx_def
        populated_def)
  have g: "textAt (qdot (daily (dailyOnly sparseDays)) sunrise) 0 = None"
    "textAt (qdot (daily (dailyOnly sparseDays)) sunset) 0 = None"
    by (simp_all add: textAt_def dailyOnly_def sparseDays_def emptySeries_def qdot_def)
  have n: "\<not> populated (qidx (qdot (None :: series option) f) 0)"
    for f :: "series \<Rightarrow> jsval list option"
    by (simp add: qdot_def qidx_def populated_def)
  have a: "qdot (qdot (None :: weatherData option) daily) time = None"
    "qdot (qdot (None :: weatherData option) hourly) time = None"
    "qdot (daily \<lparr> hourly = None, daily = None \<rparr>) time = None"
    by (simp_all add: qdot_def)
  note T = unresolved_degrades_to_default [where h = emptySeries and i = 0
      and d = "Date 2024 1 1 6" and dl = None and rt = sampleRuntime and date = "''2024-01-01''"
      and data = None and currentData = None and now = "Date 2024 1 1 5"]
  from e f g n a T [where forecastData = "dailyOnly sparseDays"]
       T [where forecastData = "\<lparr> hourly = None, daily = None \<rparr>"]
  show ?thesis by simp
qed

text \<open>
  Claim C5 as stated fails on the example morning, whose response has no weather codes:
  both boxes show the condition Clear with the sunny icon, not Unknown.
\<close>

theorem missing_code_counterexample:
  "\<not> populated (qidx (weather_code exampleHours) 1)
   \<and> hourlyConditions sampleRuntime (Date 2024 1 1 5) (hourlyOnly exampleHours)
       = Inr [\<lparr> hc_hours = ''6'', hc_weatherIcon = ''wb_sunny'', hc_description = ''Clear'' \<rparr>,
              \<lparr> hc_hours = ''7'', hc_weatherIcon = ''wb_sunny'', hc_description = ''Clear'' \<rparr>]"
  by (simp add: hourlyConditions_def hourlyWindow_def hourlyOnly_def exampleHours_def emptySeries_def
      sampleRuntime_def qdot_def dot_def bindE_def hourlyLoop.simps afterNow_def jsgt_def isoLocal_def
      conditionBox_def qidx_def jsor_def digitChar_def populated_def hourlyIcon_def
      hourlyDescription_def jsle_Num)

section \<open>C6: a returned sample that fails the inclusion rule\<close>

text \<open>
  Claim C6 says that every returned sample satisfies the "after now" rule: its hour of
  day is strictly greater than the reference's, or its calendar date strictly later.
  The page at the reference instant 2024-02-01, 10 o'clock, with the single sample
  2024-01-31T05:00 of the day before (lines 160-182): the sample fails the rule, its
  hour being smaller and its date earlier, and the page returns it, since the day of
  the month 31 is greater than 1.
\<close>

theorem earlier_date_included:
  "\<not> afterNowSpec (isoLocal ''2024-01-31T05:00'') (Date 2024 2 1 10)
   \<and> hourlyTemperature sampleRuntime (Date 2024 2 1 10) (hourlyOnly staleHours)
       = Inr [\<lparr> ht_name = ''5h'', ht_hour = Num 5, ht_temperature = Num 14, ht_feels_like = Null \<rparr>]"
  by (simp add: hourlyTemperature_def hourlyWindow_def hourlyOnly_def staleHours_def emptySeries_def
      sampleRuntime_def qdot_def dot_def bindE_def hourlyLoop.simps afterNow_def jsgt_def isoLocal_def
      afterNowSpec_def laterDate_def tempPoint_def qidx_def jsor_def digitChar_def)

section \<open>C7: a minimum of zero in the historical chart\<close>

text \<open>
  Claim C7 lets the first populated of minimum, mean and maximum win. The page on a day
  with minimum 0, mean 4 and maximum 9 (lines 86-94): the minimum is populated, so the
  claim gives the temperature 0, and the chart row holds 4, the mean.
\<close>

theorem zero_minimum_skipped:
  "formatHistoricalChartData sampleRuntime (Some (dailyOnly frostDay))
     = Inr [\<lparr> hi_name = ''day'', hi_temperature = Num 4, hi_precipitation = Num 0 \<rparr>]"
  by (simp add: formatHistorical_eq dailyOnly_def frostDay_def emptySeries_def sampleRuntime_def
      qdot_def enumerate_eq_zip upt_rec historicalRow_def qidx_def jsor_def)

section \<open>C8: no error crosses the boundary\<close>

text \<open>
  Claim C8. For every input (sections null or absent, quantity arrays of any length,
  any index, any code) the hourly chart data (lines 154-182), its three sibling loops and
  \<^verbatim>\<open>formatHistoricalChartData\<close> return a sequence and never a TypeError; the daily chart
  data (lines 361-372) is built by optional chains only and is a sequence by its form.
  A timestamp sequence that is absent or empty gives the empty sequence in all three.
\<close>

theorem no_error_crosses:
  "(\<exists>ys. hourlyTemperature rt now currentData = Inr ys)
   \<and> (\<exists>ys. hourlyPrecipitation rt now currentData = Inr ys)
   \<and> (\<exists>ys. hourlyDetails rt now currentData = Inr ys)
   \<and> (\<exists>ys. hourlyConditions rt now currentData = Inr ys)
   \<and> (\<exists>ys. formatHistoricalChartData rt data = Inr ys)
   \<and> (qdot (qdot currentData hourly) time = None \<or> qdot (qdot currentData hourly) time = Some []
        \<longrightarrow> hourlyTemperature rt now currentData = Inr [])
   \<and> (qdot (daily forecastData) time = None \<or> qdot (daily forecastData) time = Some []
        \<longrightarrow> dailyTemperature rt forecastData = [])
   \<and> (qdot (qdot data daily) time = None \<or> qdot (qdot data daily) time = Some []
        \<longrightarrow> formatHistoricalChartData rt data = Inr [])"
proof (intro conjI impI)
  show "\<exists>ys. hourlyTemperature rt now currentData = Inr ys"
    unfolding hourlyTemperature_def by (rule hourlyWindow_total)
  show "\<exists>ys. hourlyPrecipitation rt now currentData = Inr ys"
    unfolding hourlyPrecipitation_def by (rule hourlyWindow_total)
  show "\<exists>ys. hourlyDetails rt now currentData = Inr ys"
    unfolding hourlyDetails_def by (rule hourlyWindow_total)
  show "\<exists>ys. hourlyConditions rt now currentData = Inr ys"
    unfolding hourlyConditions_def by (rule hourlyWindow_total)
  show "\<exists>ys. formatHistoricalChartData rt data = Inr ys"
    by (simp add: formatHistorical_eq)
  show "hourlyTemperature rt now currentData = Inr []"
    if "qdot (qdot currentData hourly) time = None \<or> qdot (qdot currentData hourly) time = Some []"
    using that unfolding hourlyTemperature_def
    by (auto simp: hourlyWindow_absent hourlyWindow_empty)
  show "dailyTemperature rt forecastData = []"
    if "qdot (daily forecastData) time = None \<or> qdot (daily forecastData) time = Some []"
    using that by (auto simp: dailyTemperature_def dailyTimes_def)
  show "formatHistoricalChartData rt data = Inr []"
    if "qdot (qdot data daily) time = None \<or> qdot (qdot data daily) time = Some []"
    using that by (auto simp: formatHistorical_eq)
qed

theorem no_error_crosses_witness:
  "(\<exists>ys. hourlyTemperature sampleRuntime (Date 2024 1 1 5) None = Inr ys)
   \<and> (\<exists>ys. formatHistoricalChartData sampleRuntime None = Inr ys)
   \<and> hourlyTemperature sampleRuntime (Date 2024 1 1 5) None = Inr []
   \<and> dailyTemperature sampleRuntime (dailyOnly emptySeries) = []
   \<and> formatHistoricalChartData sampleRuntime None = Inr []"
proof -
  have a: "qdot (qdot (None :: weatherData option) hourly) time = None" by (simp add: qdot_def)
  have b: "qdot (daily (dailyOnly emptySeries)) time = None"
    by (simp add: qdot_def dailyOnly_def emptySeries_def)
  have c: "qdot (qdot (None :: weatherData option) daily) time = None" by (simp add: qdot_def)
  from no_error_crosses [of sampleRuntime "Date 2024 1 1 5" None None "dailyOnly emptySeries"] a b c
  show ?thesis by blast
qed

section \<open>C9: every output sample comes from an input timestamp\<close>



section \<open>C10: a feels-like value of zero\<close>

text \<open>
  Claim C10 concludes that a missing feels-like datum can be told from a value of zero.
  The page on an hour whose \<^verbatim>\<open>apparent_temperature\<close> is 0 and on the same hour without
  any feels-like array (lines 169-173): both give the same sample, with
  \<^verbatim>\<open>feels_like\<close> null, so the value zero reads as a missing datum.
\<close>

theorem zero_feels_like_reads_as_missing:
  "hourlyTemperature sampleRuntime (Date 2024 1 1 5) (hourlyOnly freezingHour)
     = Inr [\<lparr> ht_name = ''6h'', ht_hour = Num 6, ht_temperature = Num 2, ht_feels_like = Null \<rparr>]
   \<and> hourlyTemperature sampleRuntime (Date 2024 1 1 5) (hourlyOnly noFeelsLikeHour)
     = Inr [\<lparr> ht_name = ''6h'', ht_hour = Num 6, ht_temperature = Num 2, ht_feels_like = Null \<rparr>]"
  by (simp add: hourlyTemperature_def hourlyWindow_def hourlyOnly_def freezingHour_def
      noFeelsLikeHour_def emptySeries_def
      sampleRuntime_def qdot_def dot_def bindE_def hourlyLoop.simps afterNow_def jsgt_def isoLocal_def
      tempPoint_def qidx_def jsor_def digitChar_def)

end
